theory Spec2Isabelle
  imports Complex_Main
begin

section \<open>NFPA fire detection BOQ and layout tool: the coverage engine\<close>

text \<open>
  A shallow embedding of \<^verbatim>\<open>fire_design_app.py\<close>: the equipment library, the two
  functions of the rules engine (\<^verbatim>\<open>calculate_detector_quantity\<close> and
  \<^verbatim>\<open>generate_detector_grid\<close>) and the two methods of \<^verbatim>\<open>FireDesignApp\<close> that
  work on the list of selected items (\<^verbatim>\<open>add_item\<close> and \<^verbatim>\<open>generate_outputs\<close>).

  Modelling decisions.
  \<^item> A Python \<^verbatim>\<open>float\<close> is modelled as an exact \<^typ>\<open>real\<close>: no rounding, no overflow
    to infinity, no underflow to zero and no not-a-number. Everything below is a
    statement about the program under this idealisation of its arithmetic.
  \<^item> A Python \<^verbatim>\<open>int\<close> is an \<^typ>\<open>int\<close>; \<^verbatim>\<open>math.ceil\<close> is the ceiling function.
  \<^item> An exception is a value of \<open>py_error\<close>; a function that can raise returns a sum.
  \<^item> The CSV and DXF writers are sinks: the model keeps what is handed to them.
\<close>

subsection \<open>Errors and arithmetic\<close>

datatype py_error = ZeroDivisionError | ValueError | TypeError

text \<open>Python's \<^verbatim>\<open>a / b\<close> on floats raises \<^verbatim>\<open>ZeroDivisionError\<close> when \<^verbatim>\<open>b\<close> is zero.\<close>

definition truediv :: "real \<Rightarrow> real \<Rightarrow> py_error + real" where
  "truediv a b = (if b = 0 then Inl ZeroDivisionError else Inr (a / b))"

text \<open>\<^verbatim>\<open>range(n)\<close>: the integers \<open>0, ..., n - 1\<close>, none when \<open>n \<le> 0\<close>.\<close>

definition range_py :: "int \<Rightarrow> int list" where
  "range_py n = [0..n - 1]"

subsection \<open>The rules engine\<close>

type_synonym position = "real \<times> real"

text \<open>
  \<^verbatim>\<open>
  def calculate_detector_quantity(room_length, room_width, spacing):
      area = room_length * room_width
      coverage_per_detector = spacing * spacing
      qty = math.ceil(area / coverage_per_detector)
      return qty
  \<close>
\<close>

definition calculate_detector_quantity :: "real \<Rightarrow> real \<Rightarrow> real \<Rightarrow> py_error + int" where
  "calculate_detector_quantity room_length room_width spacing =
     (let area = room_length * room_width;
          coverage_per_detector = spacing * spacing
      in case truediv area coverage_per_detector of
           Inl e \<Rightarrow> Inl e
         | Inr r \<Rightarrow> Inr \<lceil>r\<rceil>)"

text \<open>
  \<^verbatim>\<open>
  def generate_detector_grid(room_length, room_width, spacing):
      x_count = math.ceil(room_length / spacing)
      y_count = math.ceil(room_width / spacing)
      positions = []
      for i in range(x_count):
          for j in range(y_count):
              x = (i + 0.5) * spacing
              y = (j + 0.5) * spacing
              if x <= room_length and y <= room_width:
                  positions.append((x, y))
      return positions
  \<close>
  Each loop is a recursion over the indices still to visit, with the list
  \<^verbatim>\<open>positions\<close> built so far as the accumulator.
\<close>

fun inner_loop :: "real \<Rightarrow> real \<Rightarrow> real \<Rightarrow> int \<Rightarrow> int list \<Rightarrow> position list \<Rightarrow> position list" where
  "inner_loop room_length room_width spacing i [] positions = positions"
| "inner_loop room_length room_width spacing i (j # js) positions =
     (let x = (of_int i + 0.5) * spacing;
          y = (of_int j + 0.5) * spacing
      in inner_loop room_length room_width spacing i js
           (if x \<le> room_length \<and> y \<le> room_width then positions @ [(x, y)] else positions))"

fun outer_loop :: "real \<Rightarrow> real \<Rightarrow> real \<Rightarrow> int \<Rightarrow> int list \<Rightarrow> position list \<Rightarrow> position list" where
  "outer_loop room_length room_width spacing y_count [] positions = positions"
| "outer_loop room_length room_width spacing y_count (i # is) positions =
     outer_loop room_length room_width spacing y_count is
       (inner_loop room_length room_width spacing i (range_py y_count) positions)"

definition generate_detector_grid :: "real \<Rightarrow> real \<Rightarrow> real \<Rightarrow> py_error + position list" where
  "generate_detector_grid room_length room_width spacing =
     (case truediv room_length spacing of
        Inl e \<Rightarrow> Inl e
      | Inr qx \<Rightarrow>
          (case truediv room_width spacing of
             Inl e \<Rightarrow> Inl e
           | Inr qy \<Rightarrow>
               (let x_count = \<lceil>qx\<rceil>; y_count = \<lceil>qy\<rceil>
                in Inr (outer_loop room_length room_width spacing y_count (range_py x_count) []))))"

subsection \<open>The grid as the specification words it\<close>

text \<open>
  The specification describes the grid as a list of candidate cell centres, columns
  outside and rows inside, from which the centres beyond the room are dropped. These
  definitions follow its words; the loops above are compared with them below.
\<close>

definition candidate :: "real \<Rightarrow> int \<Rightarrow> int \<Rightarrow> position" where
  "candidate spacing i j = ((of_int i + 0.5) * spacing, (of_int j + 0.5) * spacing)"

definition in_room :: "real \<Rightarrow> real \<Rightarrow> position \<Rightarrow> bool" where
  "in_room room_length room_width p = (\<not> (fst p > room_length \<or> snd p > room_width))"

definition grid_candidates :: "real \<Rightarrow> real \<Rightarrow> real \<Rightarrow> position list" where
  "grid_candidates room_length room_width spacing =
     (let columnCount = \<lceil>room_length / spacing\<rceil>;
          rowCount = \<lceil>room_width / spacing\<rceil>
      in concat (map (\<lambda>i. map (\<lambda>j. candidate spacing i j) [0..rowCount - 1])
                     [0..columnCount - 1]))"

definition generateGrid_spec :: "real \<Rightarrow> real \<Rightarrow> real \<Rightarrow> position list" where
  "generateGrid_spec room_length room_width spacing =
     filter (in_room room_length room_width) (grid_candidates room_length room_width spacing)"

subsection \<open>The equipment library\<close>

text \<open>
  An entry of \<^verbatim>\<open>equipment_library\<close> is a dictionary with the keys \<^verbatim>\<open>name\<close> and
  \<^verbatim>\<open>nfpa\<close> and at most one of the sizing keys; a key that is absent is \<open>None\<close>.
\<close>

record equipment =
  eq_name :: string
  eq_nfpa :: string
  default_spacing_m :: "real option"
  coverage_m2 :: "real option"
  max_travel_distance_m :: "real option"

definition library_item :: "string \<Rightarrow> real option \<Rightarrow> real option \<Rightarrow> real option \<Rightarrow> equipment" where
  "library_item n sp cov travel =
     \<lparr>eq_name = n, eq_nfpa = ''NFPA 72'', default_spacing_m = sp, coverage_m2 = cov,
      max_travel_distance_m = travel\<rparr>"

definition equipment_library :: "(string \<times> equipment list) list" where
  "equipment_library =
     [(''Smoke Detection'',
         [library_item ''Point Smoke Detector'' (Some 9.1) None None,
          library_item ''Beam Smoke Detector'' (Some 18.0) None None]),
      (''Heat Detection'',
         [library_item ''Fixed Temperature Heat Detector'' (Some 15.2) None None,
          library_item ''Rate-of-Rise Heat Detector'' (Some 15.2) None None]),
      (''Flame Detection'',
         [library_item ''UV Flame Detector'' None (Some 400) None,
          library_item ''IR Flame Detector'' None (Some 600) None]),
      (''Manual Devices'',
         [library_item ''Manual Call Point'' None None (Some 61)]),
      (''Notification'',
         [library_item ''Sounder'' None None None,
          library_item ''Strobe'' None None None])]"

text \<open>Two entries of the library by name, for the scenarios below.\<close>

definition beam_smoke_detector :: equipment where
  "beam_smoke_detector = library_item ''Beam Smoke Detector'' (Some 18.0) None None"

definition sounder :: equipment where
  "sounder = library_item ''Sounder'' None None None"

subsection \<open>The selected items and the two methods that work on them\<close>

text \<open>
  An element of \<^verbatim>\<open>self.selected_items\<close> is a dictionary with exactly the keys
  \<^verbatim>\<open>name\<close>, \<^verbatim>\<open>quantity\<close>, \<^verbatim>\<open>nfpa\<close> and \<^verbatim>\<open>spacing\<close>.
\<close>

record selected_item =
  name :: string
  quantity :: int
  nfpa :: string
  spacing :: "real option"

text \<open>
  \<^verbatim>\<open>
  def add_item(self):
      item = self.equipment_dropdown.currentData()
      self.selected_items.append({
          "name": item['name'], "quantity": 1, "nfpa": item['nfpa'],
          "spacing": item.get('default_spacing_m', None)})
  \<close>
  The first argument is the library entry that the dropdown holds.
\<close>

definition add_item :: "equipment \<Rightarrow> selected_item list \<Rightarrow> selected_item list" where
  "add_item item selected_items =
     selected_items @
       [\<lparr>name = eq_name item, quantity = 1, nfpa = eq_nfpa item,
         spacing = default_spacing_m item\<rparr>]"

text \<open>
  The truth value of \<^verbatim>\<open>i['spacing']\<close>: \<^verbatim>\<open>None\<close> and a zero are false, every other
  number is true.
\<close>

fun truthy :: "real option \<Rightarrow> bool" where
  "truthy None = False"
| "truthy (Some v) = (v \<noteq> 0)"

text \<open>
  \<^verbatim>\<open>
  def generate_outputs(self):
      length = float(self.length_input.text())
      width = float(self.width_input.text())
      detectors = [i for i in self.selected_items if i['spacing']]
      detector_positions = []
      for det in detectors:
          detector_positions.extend(generate_detector_grid(length, width, det['spacing']))
          det['quantity'] = calculate_detector_quantity(length, width, det['spacing'])
      generate_boq(self.selected_items)
      generate_dxf(length, width, detector_positions)
  \<close>
  The list \<^verbatim>\<open>detectors\<close> holds references to dictionaries of \<^verbatim>\<open>selected_items\<close>, so
  the assignment to \<^verbatim>\<open>det['quantity']\<close> changes the ledger itself. The model keeps
  the ledger as the store and a reference as an index into it: \<^verbatim>\<open>detectors\<close> is the
  list of the indices of the entries whose spacing is true.

  The loop returns the exception raised (if any), the ledger and the positions
  collected when it stopped. Dividing by a spacing that is \<^verbatim>\<open>None\<close> is a
  \<^verbatim>\<open>TypeError\<close> in Python.
\<close>

fun detector_loop ::
  "real \<Rightarrow> real \<Rightarrow> nat list \<Rightarrow> selected_item list \<Rightarrow> position list
     \<Rightarrow> py_error option \<times> selected_item list \<times> position list" where
  "detector_loop len wid [] selected_items detector_positions =
     (None, selected_items, detector_positions)"
| "detector_loop len wid (det # dets) selected_items detector_positions =
     (case spacing (selected_items ! det) of
        None \<Rightarrow> (Some TypeError, selected_items, detector_positions)
      | Some s \<Rightarrow>
          (case generate_detector_grid len wid s of
             Inl e \<Rightarrow> (Some e, selected_items, detector_positions)
           | Inr grid \<Rightarrow>
               (case calculate_detector_quantity len wid s of
                  Inl e \<Rightarrow> (Some e, selected_items, detector_positions @ grid)
                | Inr qty \<Rightarrow>
                    detector_loop len wid dets
                      (selected_items[det := (selected_items ! det)\<lparr>quantity := qty\<rparr>])
                      (detector_positions @ grid))))"

text \<open>The rows that \<^verbatim>\<open>generate_boq\<close> writes after the header row.\<close>

definition generate_boq :: "selected_item list \<Rightarrow> (string \<times> int \<times> string) list" where
  "generate_boq selected_items = map (\<lambda>item. (name item, quantity item, nfpa item)) selected_items"

text \<open>
  What a call of \<^verbatim>\<open>generate_outputs\<close> leaves behind: the exception it raised (if
  any), the ledger afterwards, the rows handed to the CSV writer and the positions
  handed to the DXF writer (both empty when the call raised before reaching them).
\<close>

record run =
  raised :: "py_error option"
  ledger :: "selected_item list"
  boq :: "(string \<times> int \<times> string) list"
  drawing :: "position list"

text \<open>
  The two arguments are the values of \<^verbatim>\<open>float(text)\<close> for the two input fields,
  \<open>None\<close> when the text is not a number (\<^verbatim>\<open>float\<close> raises \<^verbatim>\<open>ValueError\<close>).
\<close>

definition generate_outputs :: "real option \<Rightarrow> real option \<Rightarrow> selected_item list \<Rightarrow> run" where
  "generate_outputs length_input width_input selected_items =
     (case length_input of
        None \<Rightarrow> \<lparr>raised = Some ValueError, ledger = selected_items, boq = [], drawing = []\<rparr>
      | Some len \<Rightarrow>
          (case width_input of
             None \<Rightarrow> \<lparr>raised = Some ValueError, ledger = selected_items, boq = [], drawing = []\<rparr>
           | Some wid \<Rightarrow>
               (let detectors = filter (\<lambda>i. truthy (spacing (selected_items ! i)))
                                  [0..<length selected_items]
                in case detector_loop len wid detectors selected_items [] of
                     (Some e, items', detector_positions) \<Rightarrow>
                       \<lparr>raised = Some e, ledger = items', boq = [], drawing = []\<rparr>
                   | (None, items', detector_positions) \<Rightarrow>
                       \<lparr>raised = None, ledger = items', boq = generate_boq items',
                        drawing = detector_positions\<rparr>)))"

subsection \<open>A run of generate-outputs, entry by entry\<close>

text \<open>
  The specification's account of a run: an entry with a spacing gets the quantity of
  the rule and adds its grid to the drawing, any other entry is left as it is and adds
  nothing. Here an entry with a spacing is one whose spacing is true in Python's
  sense. The loop above is compared with these two functions below.
\<close>

definition recomputed :: "real \<Rightarrow> real \<Rightarrow> selected_item \<Rightarrow> selected_item" where
  "recomputed len wid item =
     (case spacing item of
        None \<Rightarrow> item
      | Some s \<Rightarrow> if s = 0 then item else item\<lparr>quantity := \<lceil>(len * wid) / (s * s)\<rceil>\<rparr>)"

definition entry_grid :: "real \<Rightarrow> real \<Rightarrow> selected_item \<Rightarrow> position list" where
  "entry_grid len wid item =
     (case spacing item of
        None \<Rightarrow> []
      | Some s \<Rightarrow> if s = 0 then [] else generateGrid_spec len wid s)"

section \<open>Properties\<close>

subsection \<open>The quantity rule\<close>

lemma calculate_detector_quantity_eq:
  "calculate_detector_quantity l w s =
     (if s = 0 then Inl ZeroDivisionError else Inr \<lceil>(l * w) / (s * s)\<rceil>)"
  by (simp add: calculate_detector_quantity_def truediv_def)

subsection \<open>The loops and the specification's grid\<close>

lemma inner_loop_eq:
  "inner_loop l w s i js acc = acc @ filter (in_room l w) (map (candidate s i) js)"
  by (induction js arbitrary: acc) (simp_all add: Let_def in_room_def candidate_def not_less)

lemma outer_loop_eq:
  "outer_loop l w s yc is acc =
     acc @ filter (in_room l w) (concat (map (\<lambda>i. map (candidate s i) (range_py yc)) is))"
  by (induction "is" arbitrary: acc) (simp_all add: inner_loop_eq)

lemma generate_detector_grid_eq:
  "generate_detector_grid l w s =
     (if s = 0 then Inl ZeroDivisionError else Inr (generateGrid_spec l w s))"
  by (simp add: generate_detector_grid_def truediv_def outer_loop_eq generateGrid_spec_def
      grid_candidates_def range_py_def)

lemma set_grid_candidates:
  "p \<in> set (grid_candidates l w s) \<longleftrightarrow>
     (\<exists>i j. 0 \<le> i \<and> i < \<lceil>l / s\<rceil> \<and> 0 \<le> j \<and> j < \<lceil>w / s\<rceil> \<and> p = candidate s i j)"
proof
  assume "p \<in> set (grid_candidates l w s)"
  then obtain i j where "i \<in> {0..\<lceil>l / s\<rceil> - 1}" "j \<in> {0..\<lceil>w / s\<rceil> - 1}" "p = candidate s i j"
    unfolding grid_candidates_def by auto
  then have "0 \<le> i \<and> i < \<lceil>l / s\<rceil> \<and> 0 \<le> j \<and> j < \<lceil>w / s\<rceil> \<and> p = candidate s i j"
    by simp
  then show "\<exists>i j. 0 \<le> i \<and> i < \<lceil>l / s\<rceil> \<and> 0 \<le> j \<and> j < \<lceil>w / s\<rceil> \<and> p = candidate s i j"
    by blast
next
  assume "\<exists>i j. 0 \<le> i \<and> i < \<lceil>l / s\<rceil> \<and> 0 \<le> j \<and> j < \<lceil>w / s\<rceil> \<and> p = candidate s i j"
  then obtain i j where "0 \<le> i" "i < \<lceil>l / s\<rceil>" "0 \<le> j" "j < \<lceil>w / s\<rceil>" "p = candidate s i j"
    by blast
  then have "i \<in> {0..\<lceil>l / s\<rceil> - 1}" "j \<in> {0..\<lceil>w / s\<rceil> - 1}" "p = candidate s i j"
    by simp_all
  then show "p \<in> set (grid_candidates l w s)"
    unfolding grid_candidates_def by (simp del: atLeastAtMost_iff) blast
qed

lemma set_generateGrid_spec:
  "p \<in> set (generateGrid_spec l w s) \<longleftrightarrow>
     (\<exists>i j. 0 \<le> i \<and> i < \<lceil>l / s\<rceil> \<and> 0 \<le> j \<and> j < \<lceil>w / s\<rceil> \<and> p = candidate s i j)
     \<and> in_room l w p"
  by (simp add: generateGrid_spec_def set_grid_candidates)

lemma candidate_nonneg:
  assumes "0 < s" and "0 \<le> i" and "0 \<le> j"
  shows "0 \<le> fst (candidate s i j) \<and> 0 \<le> snd (candidate s i j)"
  using assms by (simp add: candidate_def)




text \<open>The grid of the room of 10 by 10 with the point smoke detector's spacing.\<close>

lemma counts_10_91: "\<lceil>10 / (9.1 :: real)\<rceil> = 2"
  by (simp add: ceiling_eq_iff)

lemma grid_candidates_10_10_91:
  "grid_candidates 10 10 9.1 = [(4.55, 4.55), (4.55, 13.65), (13.65, 4.55), (13.65, 13.65)]"
  by (simp add: grid_candidates_def counts_10_91 upto_rec1 candidate_def)

lemma generateGrid_spec_10_10_91: "generateGrid_spec 10 10 9.1 = [(4.55, 4.55)]"
  by (simp add: generateGrid_spec_def grid_candidates_10_10_91 in_room_def)

subsection \<open>The loop over the detectors\<close>

lemma spacing_recomputed [simp]: "spacing (recomputed len wid item) = spacing item"
  by (simp add: recomputed_def split: option.splits)

lemma name_recomputed [simp]: "name (recomputed len wid item) = name item"
  by (simp add: recomputed_def split: option.splits)

lemma nfpa_recomputed [simp]: "nfpa (recomputed len wid item) = nfpa item"
  by (simp add: recomputed_def split: option.splits)

lemma recomputed_idem [simp]:
  "recomputed len wid (recomputed len wid item) = recomputed len wid item"
  by (simp add: recomputed_def split: option.splits)

lemma entry_grid_recomputed [simp]:
  "entry_grid len wid (recomputed len' wid' item) = entry_grid len wid item"
  by (simp add: entry_grid_def)

lemma recomputed_not_truthy: "\<not> truthy (spacing item) \<Longrightarrow> recomputed len wid item = item"
  by (cases "spacing item") (simp_all add: recomputed_def)

lemma entry_grid_not_truthy: "\<not> truthy (spacing item) \<Longrightarrow> entry_grid len wid item = []"
  by (cases "spacing item") (simp_all add: entry_grid_def)

lemma detector_loop_step:
  assumes "truthy (spacing (items ! det))"
  shows "detector_loop len wid (det # dets) items pos =
           detector_loop len wid dets (items[det := recomputed len wid (items ! det)])
             (pos @ entry_grid len wid (items ! det))"
proof -
  from assms obtain s where s: "spacing (items ! det) = Some s" "s \<noteq> 0"
    by (cases "spacing (items ! det)") auto
  then show ?thesis
    by (simp add: generate_detector_grid_eq calculate_detector_quantity_eq
        recomputed_def entry_grid_def)
qed

lemma detector_loop_eq:
  assumes "distinct dets"
    and "\<forall>d \<in> set dets. d < length items \<and> truthy (spacing (items ! d))"
  shows "detector_loop len wid dets items pos =
           (None,
            map (\<lambda>k. if k \<in> set dets then recomputed len wid (items ! k) else items ! k)
              [0..<length items],
            pos @ concat (map (\<lambda>d. entry_grid len wid (items ! d)) dets))"
  using assms
proof (induction dets arbitrary: items pos)
  case Nil
  then show ?case by (simp add: map_nth)
next
  case (Cons det dets)
  let ?items = "items[det := recomputed len wid (items ! det)]"
  from Cons.prems have det: "det < length items" "truthy (spacing (items ! det))"
    and fresh: "det \<notin> set dets" and dist: "distinct dets"
    by simp_all
  have same: "?items ! d = items ! d" if "d \<in> set dets" for d
    using that fresh by (metis nth_list_update_neq)
  have pre: "\<forall>d \<in> set dets. d < length ?items \<and> truthy (spacing (?items ! d))"
    using Cons.prems(2) same by simp
  have "(if k \<in> set dets then recomputed len wid (?items ! k) else ?items ! k)
        = (if k \<in> set (det # dets) then recomputed len wid (items ! k) else items ! k)"
    if "k < length items" for k
    using that fresh by (cases "k = det") auto
  then have ledger:
    "map (\<lambda>k. if k \<in> set dets then recomputed len wid (?items ! k) else ?items ! k)
       [0..<length ?items]
     = map (\<lambda>k. if k \<in> set (det # dets) then recomputed len wid (items ! k)
                 else items ! k) [0..<length items]"
    by simp
  have grids: "map (\<lambda>d. entry_grid len wid (?items ! d)) dets
               = map (\<lambda>d. entry_grid len wid (items ! d)) dets"
    using same by simp
  show ?case
    unfolding detector_loop_step [OF det(2)] Cons.IH [OF dist pre] ledger grids
    by simp
qed

lemma map_nth_filter:
  "map (\<lambda>k. if P (xs ! k) then f (xs ! k) else xs ! k) [0..<length xs]
     = map (\<lambda>x. if P x then f x else x) xs"
  by (rule nth_equalityI) simp_all

lemma concat_grids_filter:
  "concat (map (\<lambda>d. entry_grid len wid (items ! d))
             (filter (\<lambda>i. truthy (spacing (items ! i))) [0..<length items]))
     = concat (map (entry_grid len wid) items)"
proof -
  let ?P = "\<lambda>item. truthy (spacing item)"
  have "map (nth items) (filter (?P \<circ> nth items) [0..<length items]) = filter ?P items"
    unfolding filter_map [symmetric] by (simp add: map_nth)
  then have "map (\<lambda>d. entry_grid len wid (items ! d))
               (filter (\<lambda>i. truthy (spacing (items ! i))) [0..<length items])
             = map (entry_grid len wid) (filter ?P items)"
    by (simp add: comp_def flip: map_map [of "entry_grid len wid" "nth items", unfolded comp_def])
  moreover have "concat (map (entry_grid len wid) (filter ?P xs))
                 = concat (map (entry_grid len wid) xs)" for xs
    by (induction xs) (simp_all add: entry_grid_not_truthy)
  ultimately show ?thesis by simp
qed

lemma generate_outputs_eq:
  "generate_outputs (Some len) (Some wid) items =
     \<lparr>raised = None,
      ledger = map (recomputed len wid) items,
      boq = generate_boq (map (recomputed len wid) items),
      drawing = concat (map (entry_grid len wid) items)\<rparr>"
proof -
  let ?dets = "filter (\<lambda>i. truthy (spacing (items ! i))) [0..<length items]"
  have "distinct ?dets"
    and "\<forall>d \<in> set ?dets. d < length items \<and> truthy (spacing (items ! d))"
    by simp_all
  from detector_loop_eq [OF this]
  have loop: "detector_loop len wid ?dets items [] =
      (None,
       map (\<lambda>k. if truthy (spacing (items ! k)) then recomputed len wid (items ! k)
                 else items ! k) [0..<length items],
       concat (map (entry_grid len wid) items))"
    by (simp add: concat_grids_filter cong: map_cong)
  have "map (\<lambda>k. if truthy (spacing (items ! k)) then recomputed len wid (items ! k)
                  else items ! k) [0..<length items]
        = map (recomputed len wid) items"
    unfolding map_nth_filter [of "\<lambda>x. truthy (spacing x)"]
    by (simp add: recomputed_not_truthy cong: map_cong)
  with loop show ?thesis
    by (simp add: generate_outputs_def)
qed

lemma generate_outputs_not_numeric:
  "length_input = None \<or> width_input = None \<Longrightarrow>
     generate_outputs length_input width_input items =
       \<lparr>raised = Some ValueError, ledger = items, boq = [], drawing = []\<rparr>"
  by (auto simp add: generate_outputs_def split: option.splits)

lemma named_entries_in_library:
  "beam_smoke_detector \<in> set (concat (map snd equipment_library))
   \<and> sounder \<in> set (concat (map snd equipment_library))"
  by (simp add: equipment_library_def beam_smoke_detector_def sounder_def)

lemma generate_boq_update_same:
  assumes "k < length items" and "name y = name (items ! k)"
    and "quantity y = quantity (items ! k)" and "nfpa y = nfpa (items ! k)"
  shows "generate_boq (items[k := y]) = generate_boq items"
  using assms by (simp add: generate_boq_def map_update list_update_same_conv)

lemma drawing_update_same:
  assumes "k < length items" and "entry_grid len wid y = entry_grid len wid (items ! k)"
  shows "concat (map (entry_grid len wid) (items[k := y])) = concat (map (entry_grid len wid) items)"
proof -
  from assms have "map (entry_grid len wid) (items[k := y]) = map (entry_grid len wid) items"
    by (simp add: map_update list_update_same_conv)
  then show ?thesis by simp
qed

lemma drawing_without_entry:
  assumes "k < length items" and "entry_grid len wid (items ! k) = []"
  shows "concat (map (entry_grid len wid) (take k items @ drop (Suc k) items))
           = concat (map (entry_grid len wid) items)"
proof -
  have "concat (map (entry_grid len wid) (take k items @ items ! k # drop (Suc k) items))
          = concat (map (entry_grid len wid) (take k items @ drop (Suc k) items))"
    using assms(2) by simp
  with id_take_nth_drop [OF assms(1)] show ?thesis by simp
qed

section \<open>The claims of the specification\<close>











text \<open>
  Claim C5. For every room length, room width and spacing \<open>s\<close> greater than zero,
  \<^verbatim>\<open>generate_detector_grid\<close> returns a list, and every position \<open>(x, y)\<close> of it has
  \<open>0 \<le> x \<le> room_length\<close> and \<open>0 \<le> y \<le> room_width\<close>.
\<close>

theorem generate_detector_grid_within_room:
  assumes "0 < room_length" and "0 < room_width" and "0 < s"
  shows "\<exists>positions. generate_detector_grid room_length room_width s = Inr positions
           \<and> (\<forall>(x, y) \<in> set positions. 0 \<le> x \<and> x \<le> room_length \<and> 0 \<le> y \<and> y \<le> room_width)"
proof -
  have "0 \<le> x \<and> x \<le> room_length \<and> 0 \<le> y \<and> y \<le> room_width"
    if "(x, y) \<in> set (generateGrid_spec room_length room_width s)" for x y
  proof -
    from that obtain i j where ij: "0 \<le> i" "0 \<le> j" "(x, y) = candidate s i j"
      and room: "in_room room_length room_width (x, y)"
      unfolding set_generateGrid_spec by blast
    from candidate_nonneg [OF \<open>0 < s\<close> ij(1,2)] ij(3) have "0 \<le> x \<and> 0 \<le> y"
      by (metis fst_conv snd_conv)
    with room show ?thesis by (simp add: in_room_def not_less)
  qed
  with assms show ?thesis
    by (auto simp add: generate_detector_grid_eq)
qed

theorem generate_detector_grid_within_room_witness:
  "\<exists>positions. generate_detector_grid 20 10 5 = Inr positions
     \<and> list_all (\<lambda>(x, y). 0 \<le> x \<and> x \<le> 20 \<and> 0 \<le> y \<and> y \<le> 10) positions
     \<and> positions \<noteq> []"
proof -
  from generate_detector_grid_within_room [of 20 10 5]
  obtain positions where p: "generate_detector_grid 20 10 5 = Inr positions"
    and b: "\<forall>(x, y) \<in> set positions. 0 \<le> x \<and> x \<le> 20 \<and> 0 \<le> y \<and> y \<le> 10"
    by auto
  have "(2.5, 2.5) \<in> set (generateGrid_spec 20 10 5)"
    unfolding set_generateGrid_spec
    by (rule conjI, rule exI [of _ 0], rule exI [of _ 0])
       (simp_all add: candidate_def in_room_def)
  with p have "positions \<noteq> []"
    by (auto simp add: generate_detector_grid_eq)
  with p b show ?thesis
    by (auto simp add: list_all_iff)
qed

text \<open>
  Claim C6. For the room of 10 by 10 and the spacing 9.1 the candidates are
  \<open>(4.55, 4.55)\<close>, \<open>(4.55, 13.65)\<close>, \<open>(13.65, 4.55)\<close> and \<open>(13.65, 13.65)\<close>; the three with
  a coordinate above 10 are dropped and \<^verbatim>\<open>generate_detector_grid\<close> returns exactly
  one position, while \<^verbatim>\<open>calculate_detector_quantity\<close> returns 2.
\<close>

theorem scenario_10_10_91:
  "grid_candidates 10 10 9.1 = [(4.55, 4.55), (4.55, 13.65), (13.65, 4.55), (13.65, 13.65)]
   \<and> filter (\<lambda>(x, y). x > 10 \<or> y > 10) (grid_candidates 10 10 9.1)
       = [(4.55, 13.65), (13.65, 4.55), (13.65, 13.65)]
   \<and> generate_detector_grid 10 10 9.1 = Inr [(4.55, 4.55)]
   \<and> map_sum id length (generate_detector_grid 10 10 9.1) = Inr 1
   \<and> calculate_detector_quantity 10 10 9.1 = Inr 2"
proof -
  have q: "\<lceil>(10 * 10) / (9.1 * 9.1 :: real)\<rceil> = 2"
    by (simp add: ceiling_eq_iff)
  have "calculate_detector_quantity 10 10 9.1 = Inr 2"
    by (simp add: calculate_detector_quantity_eq q)
  moreover have "generate_detector_grid 10 10 9.1 = Inr [(4.55, 4.55)]"
    by (simp add: generate_detector_grid_eq generateGrid_spec_10_10_91)
  ultimately show ?thesis
    by (simp add: grid_candidates_10_10_91)
qed

text \<open>
  Claim C7. In every run of \<^verbatim>\<open>generate_outputs\<close> an entry that has no spacing keeps
  all its fields, its quantity among them, and the positions handed to the drawing
  are those of the ledger without that entry. An entry added from a library item
  that has no spacing still has the quantity 1 after the run, and the drawing is that
  of the ledger before the entry was added.
\<close>

theorem generate_outputs_skips_entry_without_spacing:
  "(k < length items \<and> spacing (items ! k) = None \<longrightarrow>
      length (ledger (generate_outputs length_input width_input items)) = length items
      \<and> ledger (generate_outputs length_input width_input items) ! k = items ! k
      \<and> drawing (generate_outputs length_input width_input items) =
          drawing (generate_outputs length_input width_input (take k items @ drop (Suc k) items)))
   \<and> (default_spacing_m item = None \<longrightarrow>
      quantity (last (ledger (generate_outputs length_input width_input (add_item item items)))) = 1
      \<and> drawing (generate_outputs length_input width_input (add_item item items)) =
          drawing (generate_outputs length_input width_input items))"
proof (cases "length_input = None \<or> width_input = None")
  case True
  then show ?thesis
    by (simp add: generate_outputs_not_numeric add_item_def)
next
  case False
  then obtain len wid where lw: "length_input = Some len" "width_input = Some wid"
    by auto
  have a: "ledger (generate_outputs length_input width_input items) ! k = items ! k
      \<and> drawing (generate_outputs length_input width_input items) =
          drawing (generate_outputs length_input width_input (take k items @ drop (Suc k) items))"
    if "k < length items" "spacing (items ! k) = None"
  proof -
    from that(2) have "recomputed len wid (items ! k) = items ! k"
      and "entry_grid len wid (items ! k) = []"
      by (simp_all add: recomputed_def entry_grid_def)
    with that(1) drawing_without_entry [of k items len wid] show ?thesis
      by (simp add: lw generate_outputs_eq)
  qed
  have b: "quantity (last (ledger (generate_outputs length_input width_input (add_item item items)))) = 1
      \<and> drawing (generate_outputs length_input width_input (add_item item items)) =
          drawing (generate_outputs length_input width_input items)"
    if "default_spacing_m item = None"
    using that by (simp add: lw generate_outputs_eq add_item_def recomputed_def entry_grid_def)
  from a b show ?thesis
    by (simp add: lw generate_outputs_eq)
qed

theorem generate_outputs_skips_entry_without_spacing_witness:
  "ledger (generate_outputs (Some 20) (Some 10) (add_item beam_smoke_detector (add_item sounder []))) ! 0
     = add_item sounder [] ! 0
   \<and> drawing (generate_outputs (Some 20) (Some 10) (add_item beam_smoke_detector (add_item sounder [])))
     = drawing (generate_outputs (Some 20) (Some 10) (add_item beam_smoke_detector []))
   \<and> quantity (last (ledger (generate_outputs (Some 20) (Some 10) (add_item sounder [])))) = 1
   \<and> drawing (generate_outputs (Some 20) (Some 10) (add_item sounder [])) = 
       drawing (generate_outputs (Some 20) (Some 10) [])"
proof -
  note a = generate_outputs_skips_entry_without_spacing
    [of 0 "add_item beam_smoke_detector (add_item sounder [])" "Some 20" "Some 10" sounder,
     THEN conjunct1]
  note b = generate_outputs_skips_entry_without_spacing
    [of 0 "[]" "Some 20" "Some 10" sounder, THEN conjunct2]
  have "default_spacing_m sounder = None"
    by (simp add: sounder_def library_item_def)
  with b have "quantity (last (ledger (generate_outputs (Some 20) (Some 10) (add_item sounder [])))) = 1
   \<and> drawing (generate_outputs (Some 20) (Some 10) (add_item sounder [])) = 
       drawing (generate_outputs (Some 20) (Some 10) [])"
    by blast
  moreover have "0 < length (add_item beam_smoke_detector (add_item sounder []))
     \<and> spacing (add_item beam_smoke_detector (add_item sounder []) ! 0) = None"
    by (simp add: add_item_def sounder_def library_item_def)
  with a have "ledger (generate_outputs (Some 20) (Some 10) (add_item beam_smoke_detector (add_item sounder []))) ! 0
     = add_item beam_smoke_detector (add_item sounder []) ! 0
     \<and> drawing (generate_outputs (Some 20) (Some 10) (add_item beam_smoke_detector (add_item sounder [])))
     = drawing (generate_outputs (Some 20) (Some 10)
         (take 0 (add_item beam_smoke_detector (add_item sounder []))
          @ drop (Suc 0) (add_item beam_smoke_detector (add_item sounder []))))"
    by blast
  ultimately show ?thesis
    by (simp add: add_item_def)
qed

text \<open>
  Claim C8. A second run of \<^verbatim>\<open>generate_outputs\<close> with the same two inputs, on
  the ledger that the first run left, ends as the first did: the same exception or
  none, the same ledger (so the same quantities), the same rows and the same positions.
\<close>

theorem generate_outputs_idempotent:
  "generate_outputs length_input width_input
     (ledger (generate_outputs length_input width_input items))
   = generate_outputs length_input width_input items"
proof (cases "length_input = None \<or> width_input = None")
  case True
  then show ?thesis
    by (simp add: generate_outputs_not_numeric)
next
  case False
  then obtain len wid where "length_input = Some len" "width_input = Some wid"
    by auto
  then show ?thesis
    by (simp add: generate_outputs_eq comp_def)
qed



text \<open>
  Claim C10. In a run of \<^verbatim>\<open>generate_outputs\<close> on two numbers, an entry whose spacing
  is 0 is treated as the same entry with no spacing would be: the run raises nothing
  in either case, the entry is left as it was, and the rows, the positions and the
  rest of the ledger are the same in both runs.
\<close>

theorem generate_outputs_zero_spacing_as_none:
  assumes "k < length items" and "spacing (items ! k) = Some 0"
  shows "raised (generate_outputs (Some len) (Some wid) items) = None
   \<and> raised (generate_outputs (Some len) (Some wid) (items[k := (items ! k)\<lparr>spacing := None\<rparr>])) = None
   \<and> ledger (generate_outputs (Some len) (Some wid) items) ! k = items ! k
   \<and> ledger (generate_outputs (Some len) (Some wid) (items[k := (items ! k)\<lparr>spacing := None\<rparr>]))
       = (ledger (generate_outputs (Some len) (Some wid) items))[k := (items ! k)\<lparr>spacing := None\<rparr>]
   \<and> drawing (generate_outputs (Some len) (Some wid) (items[k := (items ! k)\<lparr>spacing := None\<rparr>]))
       = drawing (generate_outputs (Some len) (Some wid) items)
   \<and> boq (generate_outputs (Some len) (Some wid) (items[k := (items ! k)\<lparr>spacing := None\<rparr>]))
       = boq (generate_outputs (Some len) (Some wid) items)"
proof -
  let ?y = "(items ! k)\<lparr>spacing := None\<rparr>"
  have y: "recomputed len wid ?y = ?y" "entry_grid len wid ?y = []"
    by (simp_all add: recomputed_def entry_grid_def)
  from assms(2) have x: "recomputed len wid (items ! k) = items ! k"
    "entry_grid len wid (items ! k) = []"
    by (simp_all add: recomputed_def entry_grid_def)
  have led: "map (recomputed len wid) (items[k := ?y]) = (map (recomputed len wid) items)[k := ?y]"
    by (simp add: map_update y)
  have "generate_boq ((map (recomputed len wid) items)[k := ?y])
          = generate_boq (map (recomputed len wid) items)"
    using assms(1) x by (intro generate_boq_update_same) simp_all
  moreover have "concat (map (entry_grid len wid) (items[k := ?y]))
          = concat (map (entry_grid len wid) items)"
    using assms(1) x y by (intro drawing_update_same) simp_all
  ultimately show ?thesis
    using assms(1) x by (simp add: generate_outputs_eq led)
qed

theorem generate_outputs_zero_spacing_as_none_witness:
  "ledger (generate_outputs (Some 20) (Some 10)
      [\<lparr>name = ''Probe'', quantity = 3, nfpa = ''NFPA 72'', spacing = Some 0\<rparr>])
     = [\<lparr>name = ''Probe'', quantity = 3, nfpa = ''NFPA 72'', spacing = Some 0\<rparr>]
   \<and> raised (generate_outputs (Some 20) (Some 10)
      [\<lparr>name = ''Probe'', quantity = 3, nfpa = ''NFPA 72'', spacing = Some 0\<rparr>]) = None
   \<and> drawing (generate_outputs (Some 20) (Some 10)
      [\<lparr>name = ''Probe'', quantity = 3, nfpa = ''NFPA 72'', spacing = Some 0\<rparr>]) =
     drawing (generate_outputs (Some 20) (Some 10)
      [\<lparr>name = ''Probe'', quantity = 3, nfpa = ''NFPA 72'', spacing = None\<rparr>])"
proof -
  let ?items = "[\<lparr>name = ''Probe'', quantity = 3, nfpa = ''NFPA 72'', spacing = Some (0::real)\<rparr>]"
  have len: "length (ledger (generate_outputs (Some 20) (Some 10) ?items)) = 1"
    by (simp add: generate_outputs_eq)
  from generate_outputs_zero_spacing_as_none [of 0 ?items 20 10]
  have "raised (generate_outputs (Some 20) (Some 10) ?items) = None"
    and "ledger (generate_outputs (Some 20) (Some 10) ?items) ! 0 = ?items ! 0"
    and "drawing (generate_outputs (Some 20) (Some 10) (?items[0 := (?items ! 0)\<lparr>spacing := None\<rparr>]))
       = drawing (generate_outputs (Some 20) (Some 10) ?items)"
    by simp_all
  with len show ?thesis
    by (cases "ledger (generate_outputs (Some 20) (Some 10) ?items)") simp_all
qed

end
